theory Spec2Isabelle
  imports Main
begin

section \<open>Python values\<close>

text \<open>
  A Python \<open>str\<close> is a sequence of Unicode code points. It is modelled as a list of
  code points, so that \<open>str.strip\<close> sees the non-ASCII white space it removes and the
  prompt template can hold its pictographs. \<open>lit\<close> turns an ASCII literal into such a
  string.
\<close>

type_synonym ustr = "nat list"

definition lit :: "string \<Rightarrow> ustr" where
  "lit s = map of_char s"

text \<open>
  The values that \<open>json.loads\<close> produces: \<open>None\<close>, \<open>bool\<close>, \<open>int\<close>, \<open>float\<close>, \<open>str\<close>,
  \<open>list\<close> and \<open>dict\<close> with string keys. The program never computes with a float, so a
  float is kept as a decimal mantissa and exponent. A dict is an association list read
  with \<open>map_of\<close>.
\<close>

datatype pyval =
    PNone
  | PBool bool
  | PInt int
  | PFloat int int
  | PStr ustr
  | PList "pyval list"
  | PDict "(ustr \<times> pyval) list"

datatype pytype = T_NoneType | T_bool | T_int | T_float | T_str | T_list | T_dict

fun type_of :: "pyval \<Rightarrow> pytype" where
  "type_of PNone = T_NoneType"
| "type_of (PBool b) = T_bool"
| "type_of (PInt i) = T_int"
| "type_of (PFloat m e) = T_float"
| "type_of (PStr s) = T_str"
| "type_of (PList xs) = T_list"
| "type_of (PDict kvs) = T_dict"

datatype subscript = Key ustr | Index int

text \<open>
  The exceptions the handler can see, all subclasses of \<open>Exception\<close>. The first four are
  raised by the operations on values below; \<open>HTTPError\<close> by \<open>raise_for_status\<close> with the
  status code; the others come from the collaborators (Flask's \<open>get_json\<close>,
  \<open>requests.post\<close>, \<open>response.json\<close>) and carry their detail.
\<close>

datatype exn =
    AttributeError pytype string
  | KeyError subscript
  | IndexError pytype
  | TypeError pytype subscript
  | HTTPError nat
  | BadRequest ustr
  | UnsupportedMediaType ustr
  | RequestException ustr
  | JSONDecodeError ustr

section \<open>Operations on values\<close>

text \<open>\<open>obj.get(key, default)\<close>: only a dict has the method.\<close>

definition dict_get :: "pyval \<Rightarrow> ustr \<Rightarrow> pyval \<Rightarrow> exn + pyval" where
  "dict_get obj key dflt =
     (case obj of
        PDict kvs \<Rightarrow> Inr (case map_of kvs key of None \<Rightarrow> dflt | Some v \<Rightarrow> v)
      | _ \<Rightarrow> Inl (AttributeError (type_of obj) ''get''))"

text \<open>
  \<open>str.lower\<close> on the code points below 256: the capitals of ASCII and of Latin-1 (the
  multiplication sign 215 among them is no letter) move up by 32. The case table above
  255 is not modelled and such a character is kept; the program only compares the result
  with \<open>user\<close>, \<open>assistant\<close> and \<open>bot\<close>, and no character above 255 lowercases to a letter
  of these words.
\<close>

definition lower_char :: "nat \<Rightarrow> nat" where
  "lower_char c =
     (if (65 \<le> c \<and> c \<le> 90) \<or> (192 \<le> c \<and> c \<le> 222 \<and> c \<noteq> 215) then c + 32 else c)"

definition lower :: "pyval \<Rightarrow> exn + ustr" where
  "lower obj =
     (case obj of
        PStr s \<Rightarrow> Inr (map lower_char s)
      | _ \<Rightarrow> Inl (AttributeError (type_of obj) ''lower''))"

text \<open>The code points that \<open>str.strip()\<close> removes (those with \<open>str.isspace\<close>).\<close>

definition is_space :: "nat \<Rightarrow> bool" where
  "is_space c \<longleftrightarrow>
     (9 \<le> c \<and> c \<le> 13) \<or> (28 \<le> c \<and> c \<le> 32) \<or> c = 133 \<or> c = 160 \<or> c = 5760 \<or>
     (8192 \<le> c \<and> c \<le> 8202) \<or> c = 8232 \<or> c = 8233 \<or> c = 8239 \<or> c = 8287 \<or> c = 12288"

definition strip_str :: "ustr \<Rightarrow> ustr" where
  "strip_str s = rev (dropWhile is_space (rev (dropWhile is_space s)))"

definition strip :: "pyval \<Rightarrow> exn + ustr" where
  "strip obj =
     (case obj of
        PStr s \<Rightarrow> Inr (strip_str s)
      | _ \<Rightarrow> Inl (AttributeError (type_of obj) ''strip''))"

text \<open>\<open>sep.join(xs)\<close> on a list of strings.\<close>

fun join :: "ustr \<Rightarrow> ustr list \<Rightarrow> ustr" where
  "join sep [] = []"
| "join sep [x] = x"
| "join sep (x # y # ys) = x @ sep @ join sep (y # ys)"

text \<open>
  \<open>obj[k]\<close>: a dict raises \<open>KeyError\<close> on a key it does not hold (its keys are strings,
  so on every integer); a list and a string take an integer, negative ones counting from
  the end, and raise \<open>IndexError\<close> out of range and \<open>TypeError\<close> on a string key; the other
  values are not subscriptable.
\<close>

definition index_of :: "nat \<Rightarrow> int \<Rightarrow> nat option" where
  "index_of n i =
     (let j = (if i < 0 then int n + i else i)
      in if 0 \<le> j \<and> j < int n then Some (nat j) else None)"

definition getitem :: "pyval \<Rightarrow> subscript \<Rightarrow> exn + pyval" where
  "getitem obj k =
     (case obj of
        PDict kvs \<Rightarrow>
          (case k of
             Key s \<Rightarrow> (case map_of kvs s of None \<Rightarrow> Inl (KeyError k) | Some v \<Rightarrow> Inr v)
           | Index i \<Rightarrow> Inl (KeyError k))
      | PList xs \<Rightarrow>
          (case k of
             Key s \<Rightarrow> Inl (TypeError T_list k)
           | Index i \<Rightarrow>
               (case index_of (length xs) i of
                  None \<Rightarrow> Inl (IndexError T_list)
                | Some j \<Rightarrow> Inr (xs ! j)))
      | PStr s \<Rightarrow>
          (case k of
             Key t \<Rightarrow> Inl (TypeError T_str k)
           | Index i \<Rightarrow>
               (case index_of (length s) i of
                  None \<Rightarrow> Inl (IndexError T_str)
                | Some j \<Rightarrow> Inr (PStr [s ! j])))
      | _ \<Rightarrow> Inl (TypeError (type_of obj) k))"

section \<open>The history formatter\<close>

text \<open>
  The loop of \<open>format_chat_history\<close> over the messages, with the list \<open>formatted\<close> it
  appends to. The role is read and lowercased first, then the content is read and
  stripped, for every message, whatever its role; an exception of either ends the loop.
\<close>

fun format_loop :: "pyval list \<Rightarrow> ustr list \<Rightarrow> exn + ustr list" where
  "format_loop [] formatted = Inr formatted"
| "format_loop (msg # rest) formatted =
     (case dict_get msg (lit ''role'') (PStr []) of
        Inl e \<Rightarrow> Inl e
      | Inr r \<Rightarrow>
     (case lower r of
        Inl e \<Rightarrow> Inl e
      | Inr role \<Rightarrow>
     (case dict_get msg (lit ''content'') (PStr []) of
        Inl e \<Rightarrow> Inl e
      | Inr c \<Rightarrow>
     (case strip c of
        Inl e \<Rightarrow> Inl e
      | Inr content \<Rightarrow>
          if role = lit ''user'' then
            format_loop rest (formatted @ [lit ''User: '' @ content])
          else if role = lit ''assistant'' \<or> role = lit ''bot'' then
            format_loop rest (formatted @ [lit ''AI: '' @ content])
          else format_loop rest formatted))))"

definition format_chat_history :: "pyval \<Rightarrow> exn + ustr" where
  "format_chat_history history =
     (case history of
        PList msgs \<Rightarrow>
          (case format_loop msgs [] of
             Inl e \<Rightarrow> Inl e
           | Inr formatted \<Rightarrow> Inr (join [10] formatted))
      | _ \<Rightarrow> Inr [])"

section \<open>The prompt\<close>

text \<open>
  The template of the prompt, cut at its three holes. Code point 10 is the line feed; the
  numbers above 127 are the template's pictographs.
\<close>

definition prompt_preamble :: ustr where
  \<open>prompt_preamble =
     [10] @
     [128216] @ lit '' You are a helpful and professional in-app assistant for a mobile or web application. Your task is to answer users' questions **only** using the official application documentation below.'' @ [10] @
     [10] @
     lit ''---'' @ [10] @
     [10] @
     lit ''### '' @ [128218] @ lit '' Application Documentation:'' @ [10]\<close>

definition prompt_history_label :: ustr where
  \<open>prompt_history_label =
     [10] @
     [10] @
     lit ''---'' @ [10] @
     [10] @
     lit ''### '' @ [129504] @ lit '' Conversation History:'' @ [10]\<close>

definition prompt_question_label :: ustr where
  \<open>prompt_question_label =
     [10] @
     [10] @
     lit ''---'' @ [10] @
     [10] @
     lit ''### '' @ [10067] @ lit '' User's Current Question:'' @ [10]\<close>

definition prompt_instructions :: ustr where
  \<open>prompt_instructions =
     [10] @
     [10] @
     lit ''---'' @ [10] @
     [10] @
     lit ''### '' @ [9989] @ lit '' Instructions:'' @ [10] @
     lit ''-**Answer in the same language the user used** (English or French).'' @ [10] @
     lit ''- Answer using only the information in the documentation.'' @ [10] @
     lit ''- Never mention the documentation or say "based on the docs"'' @ [10] @
     lit ''- Never reveal you're an AI or bot'' @ [10] @
     lit ''- Use a friendly, clear, and helpful tone, like a knowledgeable support agent.'' @ [10] @
     lit ''- Avoid technical jargon unless it's present in the documentation.'' @ [10] @
     lit ''- If the documentation contains a direct or inferred answer, respond concisely and professionally.'' @ [10] @
     lit ''- If the answer is NOT in the documentation, respond exactly with:'' @ [10] @
     [10] @
     lit ''    '' @ [128522] @ lit '' "I can't help with that, but our support team can! '' @ [128172] @ [10] @
     [10] @
     lit ''- Do NOT guess, speculate, or invent information.'' @ [10] @
     lit ''- Do NOT mention the documentation unless explicitly asked.'' @ [10] @
     lit ''- Do NOT reveal you are an AI or language model; respond as a helpful assistant.'' @ [10] @
     lit ''- Keep responses focused, informative, and approachable.'' @ [10]\<close>

definition no_prior_conversation :: ustr where
  "no_prior_conversation = lit ''No prior conversation.''"

text \<open>The hole of the history: \<open>chat_history if chat_history else "No prior conversation."\<close>.\<close>

definition history_section :: "ustr \<Rightarrow> ustr" where
  "history_section chat_history =
     (if chat_history \<noteq> [] then chat_history else no_prior_conversation)"

definition build_prompt :: "ustr \<Rightarrow> ustr \<Rightarrow> ustr \<Rightarrow> ustr" where
  "build_prompt app_documentation chat_history user_question =
     prompt_preamble @ app_documentation @
     prompt_history_label @ history_section chat_history @
     prompt_question_label @ user_question @
     prompt_instructions"

section \<open>The outbound call\<close>

record outbound =
  url :: ustr
  headers :: "(ustr \<times> ustr) list"
  json :: pyval

text \<open>
  What \<open>requests.post\<close> gives back: the status code, and what \<open>response.json()\<close> will
  return or raise.
\<close>

record response =
  status_code :: nat
  json_result :: "exn + pyval"

type_synonym upstream = "outbound \<Rightarrow> exn + response"

definition GROQ_URL :: ustr where
  "GROQ_URL = lit ''https://api.groq.com/openai/v1/chat/completions''"

definition request_headers :: "ustr \<Rightarrow> (ustr \<times> ustr) list" where
  "request_headers api_key =
     [(lit ''Authorization'', lit ''Bearer '' @ api_key),
      (lit ''Content-Type'', lit ''application/json'')]"

definition request_body :: "ustr \<Rightarrow> pyval" where
  "request_body prompt =
     PDict
      [(lit ''model'', PStr (lit ''meta-llama/llama-4-scout-17b-16e-instruct'')),
       (lit ''messages'',
        PList
         [PDict
           [(lit ''role'', PStr (lit ''system'')),
            (lit ''content'',
             PStr (lit ''You are a strict assistant who answers only based on the provided documentation and returns helpful, professional responses.''))],
          PDict
           [(lit ''role'', PStr (lit ''user'')),
            (lit ''content'', PStr prompt)]]),
       (lit ''temperature'', PFloat 2 (- 1)),
       (lit ''max_tokens'', PInt 1000)]"

text \<open>\<open>raise_for_status\<close> raises on the status codes from 400 to 599 and on no other.\<close>

definition raise_for_status :: "response \<Rightarrow> exn + unit" where
  "raise_for_status r =
     (if 400 \<le> status_code r \<and> status_code r < 600 then Inl (HTTPError (status_code r))
      else Inr ())"

section \<open>The orchestrator\<close>

text \<open>
  The message of a failure is a literal of the program or \<open>str(e)\<close> of the exception
  caught; the text Python gives an exception is not modelled.
\<close>

datatype message = Literal ustr | Str_of exn

datatype AssistantResult =
    Success (answer: pyval) (model_used: pyval) (tokens_used: pyval)
  | Failure (error: message) (status: nat)

definition error_response :: "message \<Rightarrow> nat \<Rightarrow> AssistantResult" where
  "error_response msg code = Failure msg code"

definition success_response :: "pyval \<Rightarrow> pyval \<Rightarrow> pyval \<Rightarrow> AssistantResult" where
  "success_response ans model tokens = Success ans model tokens"

text \<open>
  The lines after \<open>result = response.json()\<close>: the content of the first choice's message,
  then the arguments of \<open>success_response\<close> in their order.
\<close>

definition read_result :: "pyval \<Rightarrow> exn + AssistantResult" where
  "read_result result =
     (case getitem result (Key (lit ''choices'')) of
        Inl e \<Rightarrow> Inl e
      | Inr choices \<Rightarrow>
     (case getitem choices (Index 0) of
        Inl e \<Rightarrow> Inl e
      | Inr choice \<Rightarrow>
     (case getitem choice (Key (lit ''message'')) of
        Inl e \<Rightarrow> Inl e
      | Inr m \<Rightarrow>
     (case getitem m (Key (lit ''content'')) of
        Inl e \<Rightarrow> Inl e
      | Inr msg \<Rightarrow>
     (case dict_get result (lit ''model'') PNone of
        Inl e \<Rightarrow> Inl e
      | Inr model \<Rightarrow>
     (case dict_get result (lit ''usage'') (PDict []) of
        Inl e \<Rightarrow> Inl e
      | Inr usage \<Rightarrow>
     (case dict_get usage (lit ''total_tokens'') (PInt 0) of
        Inl e \<Rightarrow> Inl e
      | Inr tokens \<Rightarrow> Inr (success_response msg model tokens))))))))"

text \<open>
  From the call of the endpoint to the end of the \<open>try\<close>: \<open>requests.post\<close> has returned
  a response or raised, then \<open>raise_for_status\<close>, \<open>response.json()\<close> and the reading of
  the result follow, each of which can raise.
\<close>

definition receive :: "exn + response \<Rightarrow> exn + AssistantResult" where
  "receive posted =
     (case posted of
        Inl e \<Rightarrow> Inl e
      | Inr resp \<Rightarrow>
     (case raise_for_status resp of
        Inl e \<Rightarrow> Inl e
      | Inr u \<Rightarrow>
     (case json_result resp of
        Inl e \<Rightarrow> Inl e
      | Inr result \<Rightarrow> read_result result)))"

text \<open>
  The body of the \<open>try\<close> of \<open>ai_assistant\<close>. It takes the loaded documentation, the API
  key, what \<open>request.get_json()\<close> returned or raised and the upstream endpoint; it gives
  the response returned or the exception raised, and the requests it has sent upstream.
  Both fields of the body are read before the two checks, as in the source.
\<close>

definition ai_assistant_try ::
    "ustr \<Rightarrow> ustr \<Rightarrow> exn + pyval \<Rightarrow> upstream \<Rightarrow> (exn + AssistantResult) \<times> outbound list" where
  "ai_assistant_try app_documentation api_key get_json post =
     (case get_json of
        Inl e \<Rightarrow> (Inl e, [])
      | Inr data \<Rightarrow>
     (case dict_get data (lit ''question'') (PStr []) of
        Inl e \<Rightarrow> (Inl e, [])
      | Inr q \<Rightarrow>
     (case strip q of
        Inl e \<Rightarrow> (Inl e, [])
      | Inr user_question \<Rightarrow>
     (case dict_get data (lit ''history'') (PList []) of
        Inl e \<Rightarrow> (Inl e, [])
      | Inr chat_history_raw \<Rightarrow>
          if app_documentation = [] then
            (Inr (error_response
               (Literal (lit ''Application documentation is missing or could not be loaded.'')) 500), [])
          else if user_question = [] then
            (Inr (error_response (Literal (lit ''Missing 'question' in request.'')) 400), [])
          else
     (case format_chat_history chat_history_raw of
        Inl e \<Rightarrow> (Inl e, [])
      | Inr chat_history \<Rightarrow>
          let prompt = build_prompt app_documentation chat_history user_question;
              req = \<lparr>url = GROQ_URL, headers = request_headers api_key,
                     json = request_body prompt\<rparr>
          in
          (receive (post req), [req]))))))"

text \<open>\<open>ai_assistant\<close>: the \<open>try\<close> with its handler \<open>except Exception as e\<close>.\<close>

definition ai_assistant ::
    "ustr \<Rightarrow> ustr \<Rightarrow> exn + pyval \<Rightarrow> upstream \<Rightarrow> AssistantResult \<times> outbound list" where
  "ai_assistant app_documentation api_key get_json post =
     (case ai_assistant_try app_documentation api_key get_json post of
        (Inl e, sent) \<Rightarrow> (error_response (Str_of e) 500, sent)
      | (Inr r, sent) \<Rightarrow> (r, sent))"

section \<open>The specification's descriptions\<close>

text \<open>
  A message the formatter accepts: a dict whose \<open>role\<close> and \<open>content\<close> are each absent
  or a string.
\<close>

definition str_or_absent :: "pyval option \<Rightarrow> bool" where
  "str_or_absent v = (case v of None \<Rightarrow> True | Some (PStr s) \<Rightarrow> True | Some _ \<Rightarrow> False)"

definition is_turn :: "pyval \<Rightarrow> bool" where
  "is_turn msg =
     (case msg of
        PDict kvs \<Rightarrow>
          str_or_absent (map_of kvs (lit ''role'')) \<and> str_or_absent (map_of kvs (lit ''content''))
      | _ \<Rightarrow> False)"

definition accepted_history :: "pyval \<Rightarrow> bool" where
  "accepted_history history =
     (case history of PList msgs \<Rightarrow> list_all is_turn msgs | _ \<Rightarrow> True)"

text \<open>A turn with the two fields, and the string under a field of a turn (empty when absent).\<close>

definition turn :: "ustr \<Rightarrow> ustr \<Rightarrow> pyval" where
  "turn r c = PDict [(lit ''role'', PStr r), (lit ''content'', PStr c)]"

definition field :: "pyval \<Rightarrow> ustr \<Rightarrow> ustr" where
  "field msg k =
     (case msg of
        PDict kvs \<Rightarrow> (case map_of kvs k of Some (PStr s) \<Rightarrow> s | _ \<Rightarrow> [])
      | _ \<Rightarrow> [])"

text \<open>
  The formatter as the specification describes it: the line of each turn by its
  lowercased role, the turns of other roles dropped, the lines joined by line feeds in
  their order. The content goes through \<open>f\<close>: the identity is the content unchanged.
\<close>

definition described_line :: "(ustr \<Rightarrow> ustr) \<Rightarrow> pyval \<Rightarrow> ustr option" where
  "described_line f msg =
     (let role = map lower_char (field msg (lit ''role''));
          content = f (field msg (lit ''content''))
      in if role = lit ''user'' then Some (lit ''User: '' @ content)
         else if role = lit ''assistant'' \<or> role = lit ''bot'' then Some (lit ''AI: '' @ content)
         else None)"

definition described_history :: "(ustr \<Rightarrow> ustr) \<Rightarrow> pyval list \<Rightarrow> ustr" where
  "described_history f msgs = join [10] (List.map_filter (described_line f) msgs)"

text \<open>
  The result of the endpoint in the specification's scenario of a success: the content
  \<open>Hello\<close>, the model \<open>m1\<close> and 42 tokens.
\<close>

definition hello_result :: pyval where
  "hello_result =
     PDict
      [(lit ''model'', PStr (lit ''m1'')),
       (lit ''choices'',
        PList [PDict [(lit ''message'', PDict [(lit ''content'', PStr (lit ''Hello''))])]]),
       (lit ''usage'', PDict [(lit ''total_tokens'', PInt 42)])]"

section \<open>Literals\<close>

lemma lit_eq_iff [simp]: "lit s = lit t \<longleftrightarrow> s = t"
  unfolding lit_def by (simp add: inj_on_def)

lemma lit_Nil [simp]: "lit [] = []"
  by (simp add: lit_def)

section \<open>The formatter on well-typed turns\<close>

lemma str_or_absent_cases:
  "str_or_absent v \<Longrightarrow> v = None \<or> (\<exists>s. v = Some (PStr s))"
  by (auto simp add: str_or_absent_def split: option.splits pyval.splits)

lemma turn_get:
  assumes "is_turn msg" and "k = lit ''role'' \<or> k = lit ''content''"
  shows "dict_get msg k (PStr []) = Inr (PStr (field msg k))"
proof -
  from assms(1) obtain kvs where msg: "msg = PDict kvs"
    by (cases msg) (simp_all add: is_turn_def)
  with assms have "str_or_absent (map_of kvs k)"
    by (auto simp add: is_turn_def)
  then have "map_of kvs k = None \<or> (\<exists>s. map_of kvs k = Some (PStr s))"
    by (rule str_or_absent_cases)
  then show ?thesis
    by (auto simp add: msg dict_get_def field_def)
qed

lemma format_loop_turn:
  assumes "is_turn msg"
  shows "format_loop (msg # rest) acc =
         format_loop rest
           (acc @ (case described_line strip_str msg of None \<Rightarrow> [] | Some l \<Rightarrow> [l]))"
proof -
  have r: "dict_get msg (lit ''role'') (PStr []) = Inr (PStr (field msg (lit ''role'')))"
    using assms by (simp add: turn_get)
  have c: "dict_get msg (lit ''content'') (PStr []) = Inr (PStr (field msg (lit ''content'')))"
    using assms by (simp add: turn_get)
  show ?thesis
    by (simp add: r c lower_def strip_def described_line_def Let_def)
qed

lemma format_loop_turns:
  "list_all is_turn msgs \<Longrightarrow>
   format_loop msgs acc = Inr (acc @ List.map_filter (described_line strip_str) msgs)"
proof (induction msgs arbitrary: acc)
  case Nil
  then show ?case by (simp add: map_filter_simps)
next
  case (Cons msg rest)
  then have m: "is_turn msg" and r: "list_all is_turn rest" by simp_all
  show ?case
    by (simp only: format_loop_turn [OF m] Cons.IH [OF r])
       (simp add: map_filter_simps split: option.splits)
qed

section \<open>The lines of the formatter\<close>

lemma format_loop_lines:
  assumes "format_loop msgs acc = Inr out"
    and "\<forall>l \<in> set acc. \<exists>c. l = lit ''User: '' @ c \<or> l = lit ''AI: '' @ c"
  shows "\<forall>l \<in> set out. \<exists>c. l = lit ''User: '' @ c \<or> l = lit ''AI: '' @ c"
  using assms
proof (induction msgs arbitrary: acc)
  case Nil
  then show ?case by simp
next
  case (Cons msg rest)
  from Cons.prems(1) obtain acc' where
    step: "format_loop rest acc' = Inr out" and
    acc': "acc' = acc \<or> (\<exists>c. acc' = acc @ [lit ''User: '' @ c]) \<or> (\<exists>c. acc' = acc @ [lit ''AI: '' @ c])"
    by (auto split: sum.splits if_splits)
  from acc' Cons.prems(2)
  have "\<forall>l \<in> set acc'. \<exists>c. l = lit ''User: '' @ c \<or> l = lit ''AI: '' @ c"
    by auto
  with step show ?case by (rule Cons.IH)
qed

lemma join_Cons: "\<exists>r. join sep (x # xs) = x @ r"
  by (cases xs) simp_all

lemma format_chat_history_prefix:
  assumes "format_chat_history hraw = Inr h" and "h \<noteq> []"
  shows "\<exists>c. h = lit ''User: '' @ c \<or> h = lit ''AI: '' @ c"
proof (cases hraw)
  case (PList msgs)
  with assms(1) obtain out where
    out: "format_loop msgs [] = Inr out" and h: "h = join [10] out"
    by (auto simp add: format_chat_history_def split: sum.splits)
  from h assms(2) obtain x xs where xs: "out = x # xs"
    by (cases out) simp_all
  from format_loop_lines [OF out] xs
  obtain c where "x = lit ''User: '' @ c \<or> x = lit ''AI: '' @ c"
    by auto
  moreover from join_Cons obtain r where "join [10] (x # xs) = x @ r"
    by blast
  ultimately show ?thesis
    using h xs by auto
qed (use assms in \<open>simp_all add: format_chat_history_def\<close>)

lemma format_chat_history_not_placeholder:
  assumes "format_chat_history hraw = Inr h" and "h \<noteq> []"
  shows "h \<noteq> no_prior_conversation"
  using format_chat_history_prefix [OF assms]
  by (auto simp add: no_prior_conversation_def lit_def)

section \<open>The runs that call the endpoint\<close>

lemma try_valid:
  assumes "dict_get data (lit ''question'') (PStr []) = Inr qv"
    and "strip qv = Inr q"
    and "dict_get data (lit ''history'') (PList []) = Inr hraw"
    and "doc \<noteq> []" and "q \<noteq> []"
    and "format_chat_history hraw = Inr h"
    and "req = \<lparr>url = GROQ_URL, headers = request_headers key,
                 json = request_body (build_prompt doc h q)\<rparr>"
  shows "ai_assistant_try doc key (Inr data) post = (receive (post req), [req])"
  using assms by (simp add: ai_assistant_try_def Let_def)

lemma try_sent:
  assumes "snd (ai_assistant_try doc key g post) = [req]"
  shows "\<exists>data qv q hraw h.
           g = Inr data \<and>
           dict_get data (lit ''question'') (PStr []) = Inr qv \<and> strip qv = Inr q \<and>
           dict_get data (lit ''history'') (PList []) = Inr hraw \<and>
           doc \<noteq> [] \<and> q \<noteq> [] \<and> format_chat_history hraw = Inr h \<and>
           req = \<lparr>url = GROQ_URL, headers = request_headers key,
                  json = request_body (build_prompt doc h q)\<rparr>"
  using assms
  by (auto simp add: ai_assistant_try_def Let_def split: sum.splits if_splits)

lemma snd_ai_assistant:
  "snd (ai_assistant doc key g post) = snd (ai_assistant_try doc key g post)"
  by (simp add: ai_assistant_def split: prod.splits sum.splits)

lemma ai_assistant_sent:
  assumes "snd (ai_assistant doc key g post) = [req]"
  shows "ai_assistant doc key g post =
           (case receive (post req) of Inl e \<Rightarrow> Failure (Str_of e) 500 | Inr r \<Rightarrow> r, [req])"
proof -
  from assms have s: "snd (ai_assistant_try doc key g post) = [req]"
    by (simp add: snd_ai_assistant)
  from try_sent [OF s] obtain data qv q hraw h where
    "g = Inr data" "dict_get data (lit ''question'') (PStr []) = Inr qv" "strip qv = Inr q"
    "dict_get data (lit ''history'') (PList []) = Inr hraw" "doc \<noteq> []" "q \<noteq> []"
    "format_chat_history hraw = Inr h"
    "req = \<lparr>url = GROQ_URL, headers = request_headers key,
             json = request_body (build_prompt doc h q)\<rparr>"
    by blast
  then have "ai_assistant_try doc key g post = (receive (post req), [req])"
    by (simp add: try_valid)
  then show ?thesis
    by (simp add: ai_assistant_def error_response_def split: sum.splits)
qed

lemma sent_request:
  assumes "snd (ai_assistant doc key (Inr data) post) = [req]"
    and "dict_get data (lit ''question'') (PStr []) = Inr qv" and "strip qv = Inr q"
    and "dict_get data (lit ''history'') (PList []) = Inr hraw"
    and "format_chat_history hraw = Inr h"
  shows "json req = request_body (build_prompt doc h q)"
proof -
  from assms(1) have "snd (ai_assistant_try doc key (Inr data) post) = [req]"
    by (simp add: snd_ai_assistant)
  from try_sent [OF this] assms(2-5) show ?thesis
    by auto
qed

lemma read_result_well_formed:
  assumes "map_of rs (lit ''choices'') = Some (PList (PDict c # cs))"
    and "map_of c (lit ''message'') = Some (PDict m)"
    and "map_of m (lit ''content'') = Some a"
    and "map_of rs (lit ''model'') = Some mo"
    and "(map_of rs (lit ''usage'') = None \<and> t = PInt 0) \<or>
         (\<exists>u. map_of rs (lit ''usage'') = Some (PDict u) \<and>
              (map_of u (lit ''total_tokens'') = Some t \<or>
               map_of u (lit ''total_tokens'') = None \<and> t = PInt 0))"
  shows "read_result (PDict rs) = Inr (Success a mo t)"
  using assms
  by (auto simp add: read_result_def getitem_def index_of_def dict_get_def success_response_def)

text \<open>The exceptions of the call, one by one.\<close>

lemma receive_network_error: "receive (Inl e) = Inl e"
  by (simp add: receive_def)

lemma receive_http_error:
  "400 \<le> status_code resp \<Longrightarrow> status_code resp < 600 \<Longrightarrow>
   receive (Inr resp) = Inl (HTTPError (status_code resp))"
  by (simp add: receive_def raise_for_status_def)

lemma receive_bad_json:
  "\<not> (400 \<le> status_code resp \<and> status_code resp < 600) \<Longrightarrow> json_result resp = Inl e \<Longrightarrow>
   receive (Inr resp) = Inl e"
  by (auto simp add: receive_def raise_for_status_def)

lemma read_result_no_choices:
  "map_of rs (lit ''choices'') = None \<Longrightarrow>
   read_result (PDict rs) = Inl (KeyError (Key (lit ''choices'')))"
  by (simp add: read_result_def getitem_def)

lemma read_result_empty_choices:
  "map_of rs (lit ''choices'') = Some (PList []) \<Longrightarrow>
   read_result (PDict rs) = Inl (IndexError T_list)"
  by (simp add: read_result_def getitem_def index_of_def)

lemma read_result_not_dict:
  "\<forall>rs. result \<noteq> PDict rs \<Longrightarrow> \<exists>e. read_result result = Inl e"
  by (cases result) (simp_all add: read_result_def getitem_def)

lemmas run_defs = snd_ai_assistant ai_assistant_try_def dict_get_def strip_def strip_str_def
  is_space_def lit_def format_chat_history_def error_response_def Let_def

section \<open>The claims\<close>

subsection \<open>The history formatter\<close>

text \<open>
  C1, as the code has it: \<open>format_chat_history\<close> returns a string and raises nothing on
  every value that is not a list, and on every list whose elements are all dicts with
  \<open>role\<close> and \<open>content\<close> each absent or a string, whatever the role.
\<close>

theorem format_chat_history_returns:
  assumes "accepted_history history"
  shows "\<exists>s. format_chat_history history = Inr s"
proof (cases history)
  case (PList msgs)
  with assms have "list_all is_turn msgs"
    by (simp add: accepted_history_def)
  then show ?thesis
    by (simp add: PList format_chat_history_def format_loop_turns)
qed (simp_all add: format_chat_history_def)

theorem format_chat_history_returns_witness:
  "(\<exists>s. format_chat_history (PInt 3) = Inr s) \<and>
   (\<exists>s. format_chat_history
          (PList [PDict [(lit ''role'', PStr (lit ''wizard''))], PDict [],
                  turn (lit ''user'') (lit ''hi'')]) = Inr s)"
  using format_chat_history_returns [of "PInt 3"]
    format_chat_history_returns
      [of "PList [PDict [(lit ''role'', PStr (lit ''wizard''))], PDict [],
                  turn (lit ''user'') (lit ''hi'')]"]
  by (simp add: accepted_history_def is_turn_def str_or_absent_def turn_def)

text \<open>
  C1 as it is stated fails: an element that is no dict has no \<open>get\<close>, and a \<open>role\<close> or a
  \<open>content\<close> that is no string has no \<open>lower\<close> or \<open>strip\<close>; the \<open>AttributeError\<close> leaves the
  formatter.
\<close>

theorem format_chat_history_raises:
  "format_chat_history (PList [PInt 5]) = Inl (AttributeError T_int ''get'') \<and>
   format_chat_history (PList [PDict [(lit ''role'', PInt 5)]]) =
     Inl (AttributeError T_int ''lower'') \<and>
   format_chat_history (PList [PDict [(lit ''role'', PStr (lit ''wizard'')), (lit ''content'', PNone)]]) =
     Inl (AttributeError T_NoneType ''strip'')"
  by (simp add: format_chat_history_def dict_get_def lower_def strip_def)

text \<open>
  C2, as the code has it: on every list of turns the formatter gives the lines of the
  turns in their order, joined by line feeds: \<open>User: \<close> and the content for the lowercased
  role \<open>user\<close>, \<open>AI: \<close> and the content for \<open>assistant\<close> and \<open>bot\<close>, nothing for another role,
  where the content is stripped of the white space around it.
\<close>

theorem format_chat_history_lines:
  assumes "list_all is_turn msgs"
  shows "format_chat_history (PList msgs) = Inr (described_history strip_str msgs)"
  using assms by (simp add: format_chat_history_def described_history_def format_loop_turns)

theorem format_chat_history_lines_witness:
  "format_chat_history
     (PList [turn (lit ''UsEr'') (lit ''  hi  ''), turn (lit ''system'') (lit ''dropped''),
             turn (lit ''BOT'') (lit ''yo''), turn (lit ''Assistant'') (lit ''ok'')]) =
   Inr (lit ''User: hi\<newline>AI: yo\<newline>AI: ok'')"
  using format_chat_history_lines
    [of "[turn (lit ''UsEr'') (lit ''  hi  ''), turn (lit ''system'') (lit ''dropped''),
          turn (lit ''BOT'') (lit ''yo''), turn (lit ''Assistant'') (lit ''ok'')]"]
  by (simp add: described_history_def described_line_def map_filter_simps turn_def is_turn_def
      str_or_absent_def field_def lit_def lower_char_def strip_str_def is_space_def)

text \<open>
  C2 as it is stated fails: the content does not reach the line unchanged. The turn of
  role \<open>user\<close> with content \<open> hi\<close> gives \<open>User: hi\<close>, not \<open>User:  hi\<close>.
\<close>

theorem format_chat_history_strips_content:
  "format_chat_history (PList [turn (lit ''user'') (lit '' hi'')]) \<noteq>
     Inr (described_history id [turn (lit ''user'') (lit '' hi'')]) \<and>
   format_chat_history (PList [turn (lit ''user'') (lit '' hi'')]) = Inr (lit ''User: hi'') \<and>
   described_history id [turn (lit ''user'') (lit '' hi'')] = lit ''User:  hi''"
  by (simp add: format_chat_history_def described_history_def described_line_def
      map_filter_simps turn_def dict_get_def lower_def strip_def field_def lit_def
      lower_char_def strip_str_def is_space_def)

subsection \<open>The checks of the request\<close>

text \<open>
  C3: when the body of the request is a JSON object and the documentation is the empty
  string, \<open>ai_assistant\<close> returns a failure with status 500, whatever the question is
  (a string, blank, absent, or no string at all), and calls nothing upstream.
\<close>

theorem empty_corpus_fails_500:
  "\<exists>msg. ai_assistant [] key (Inr (PDict kvs)) post = (Failure msg 500, [])"
  by (cases "strip (case map_of kvs (lit ''question'') of None \<Rightarrow> PStr [] | Some v \<Rightarrow> v)")
     (simp_all add: ai_assistant_def ai_assistant_try_def dict_get_def error_response_def)

theorem empty_corpus_fails_500_witness:
  "(\<exists>msg. ai_assistant [] (lit ''k'') (Inr (PDict [(lit ''question'', PStr (lit ''How?''))]))
      (\<lambda>r. Inr \<lparr>status_code = 200, json_result = Inr hello_result\<rparr>) = (Failure msg 500, [])) \<and>
   (\<exists>msg. ai_assistant [] (lit ''k'') (Inr (PDict []))
      (\<lambda>r. Inr \<lparr>status_code = 200, json_result = Inr hello_result\<rparr>) = (Failure msg 500, []))"
  using empty_corpus_fails_500 [of "lit ''k''" "[(lit ''question'', PStr (lit ''How?''))]"
      "\<lambda>r. Inr \<lparr>status_code = 200, json_result = Inr hello_result\<rparr>"]
    empty_corpus_fails_500 [of "lit ''k''" "[]"
      "\<lambda>r. Inr \<lparr>status_code = 200, json_result = Inr hello_result\<rparr>"]
  by simp

text \<open>
  C4: when the documentation is not empty and the question of the request, absent ones
  counting as empty, is empty once stripped, \<open>ai_assistant\<close> returns the failure of the
  missing question with status 400 and has sent nothing upstream.
\<close>

theorem blank_question_fails_400:
  assumes "doc \<noteq> []"
    and "dict_get data (lit ''question'') (PStr []) = Inr qv"
    and "strip qv = Inr []"
  shows "ai_assistant doc key (Inr data) post =
           (Failure (Literal (lit ''Missing 'question' in request.'')) 400, [])"
proof -
  from assms(2) obtain kvs where "data = PDict kvs"
    by (cases data) (simp_all add: dict_get_def)
  then have "\<exists>hraw. dict_get data (lit ''history'') (PList []) = Inr hraw"
    by (simp add: dict_get_def)
  with assms show ?thesis
    by (auto simp add: ai_assistant_def ai_assistant_try_def error_response_def)
qed

theorem blank_question_fails_400_witness:
  "ai_assistant (lit ''Doc'') (lit ''k'')
     (Inr (PDict [(lit ''question'', PStr (lit '' \<newline>  '')), (lit ''history'', PInt 7)]))
     (\<lambda>r. Inr \<lparr>status_code = 200, json_result = Inr hello_result\<rparr>) =
     (Failure (Literal (lit ''Missing 'question' in request.'')) 400, []) \<and>
   ai_assistant (lit ''Doc'') (lit ''k'') (Inr (PDict []))
     (\<lambda>r. Inr \<lparr>status_code = 200, json_result = Inr hello_result\<rparr>) =
     (Failure (Literal (lit ''Missing 'question' in request.'')) 400, [])"
  using blank_question_fails_400 [of "lit ''Doc''"
      "PDict [(lit ''question'', PStr (lit '' \<newline>  '')), (lit ''history'', PInt 7)]"
      "PStr (lit '' \<newline>  '')" "lit ''k''"
      "\<lambda>r. Inr \<lparr>status_code = 200, json_result = Inr hello_result\<rparr>"]
    blank_question_fails_400 [of "lit ''Doc''" "PDict []" "PStr []" "lit ''k''"
      "\<lambda>r. Inr \<lparr>status_code = 200, json_result = Inr hello_result\<rparr>"]
  by (simp add: dict_get_def strip_def strip_str_def is_space_def lit_def)

text \<open>
  C10: when \<open>get_json\<close> raises (no body, no valid JSON) or returns a value that is no
  dict, \<open>ai_assistant\<close> returns a failure with status 500 whose message is \<open>str\<close> of the
  exception of \<open>get_json\<close>, or of the \<open>AttributeError\<close> of the missing \<open>get\<close>; it is not
  the failure of the missing question, and nothing is sent upstream.
\<close>

theorem bad_body_fails_500:
  assumes "\<forall>kvs. g \<noteq> Inr (PDict kvs)"
  shows "ai_assistant doc key g post =
           (Failure (Str_of (case g of Inl e \<Rightarrow> e | Inr v \<Rightarrow> AttributeError (type_of v) ''get'')) 500, [])
         \<and> fst (ai_assistant doc key g post) \<noteq>
             Failure (Literal (lit ''Missing 'question' in request.'')) 400"
proof (cases g)
  case (Inl e)
  then show ?thesis
    by (simp add: ai_assistant_def ai_assistant_try_def error_response_def)
next
  case (Inr v)
  with assms
  have "dict_get v (lit ''question'') (PStr []) = Inl (AttributeError (type_of v) ''get'')"
    by (cases v) (simp_all add: dict_get_def)
  with Inr show ?thesis
    by (simp add: ai_assistant_def ai_assistant_try_def error_response_def)
qed

theorem bad_body_fails_500_witness:
  "ai_assistant (lit ''Doc'') (lit ''k'') (Inl (BadRequest (lit ''Failed to decode JSON object'')))
     (\<lambda>r. Inr \<lparr>status_code = 200, json_result = Inr hello_result\<rparr>) =
     (Failure (Str_of (BadRequest (lit ''Failed to decode JSON object''))) 500, []) \<and>
   ai_assistant (lit ''Doc'') (lit ''k'') (Inr PNone)
     (\<lambda>r. Inr \<lparr>status_code = 200, json_result = Inr hello_result\<rparr>) =
     (Failure (Str_of (AttributeError T_NoneType ''get'')) 500, []) \<and>
   ai_assistant (lit ''Doc'') (lit ''k'') (Inr (PList [PStr (lit ''How?'')]))
     (\<lambda>r. Inr \<lparr>status_code = 200, json_result = Inr hello_result\<rparr>) =
     (Failure (Str_of (AttributeError T_list ''get'')) 500, [])"
  using bad_body_fails_500 [of "Inl (BadRequest (lit ''Failed to decode JSON object''))"
      "lit ''Doc''" "lit ''k''" "\<lambda>r. Inr \<lparr>status_code = 200, json_result = Inr hello_result\<rparr>"]
    bad_body_fails_500 [of "Inr PNone"
      "lit ''Doc''" "lit ''k''" "\<lambda>r. Inr \<lparr>status_code = 200, json_result = Inr hello_result\<rparr>"]
    bad_body_fails_500 [of "Inr (PList [PStr (lit ''How?'')])"
      "lit ''Doc''" "lit ''k''" "\<lambda>r. Inr \<lparr>status_code = 200, json_result = Inr hello_result\<rparr>"]
  by simp

subsection \<open>The call of the endpoint\<close>

text \<open>
  C5: when the endpoint is called and an exception \<open>e\<close> arises from the call to the end
  of the \<open>try\<close> (\<open>requests.post\<close> raises, \<open>raise_for_status\<close> raises, \<open>response.json()\<close>
  raises, or a field of the result is missing), \<open>ai_assistant\<close> returns the failure with
  status 500 and message \<open>str(e)\<close>: the exception is caught.
\<close>

theorem upstream_exception_fails_500:
  assumes "snd (ai_assistant doc key g post) = [req]"
    and "receive (post req) = Inl e"
  shows "ai_assistant doc key g post = (Failure (Str_of e) 500, [req])"
  using ai_assistant_sent [OF assms(1)] assms(2) by simp

theorem upstream_exception_fails_500_witness:
  "fst (ai_assistant (lit ''Doc'') (lit ''k'') (Inr (PDict [(lit ''question'', PStr (lit ''How?''))]))
     (\<lambda>r. Inl (RequestException (lit ''timed out'')))) =
     Failure (Str_of (RequestException (lit ''timed out''))) 500 \<and>
   fst (ai_assistant (lit ''Doc'') (lit ''k'') (Inr (PDict [(lit ''question'', PStr (lit ''How?''))]))
     (\<lambda>r. Inr \<lparr>status_code = 500, json_result = Inr hello_result\<rparr>)) =
     Failure (Str_of (HTTPError 500)) 500 \<and>
   fst (ai_assistant (lit ''Doc'') (lit ''k'') (Inr (PDict [(lit ''question'', PStr (lit ''How?''))]))
     (\<lambda>r. Inr \<lparr>status_code = 200, json_result = Inr (PDict [(lit ''choices'', PList [])])\<rparr>)) =
     Failure (Str_of (IndexError T_list)) 500"
proof -
  let ?g = "Inr (PDict [(lit ''question'', PStr (lit ''How?''))]) :: exn + pyval"
  let ?req = "\<lparr>url = GROQ_URL, headers = request_headers (lit ''k''),
      json = request_body (build_prompt (lit ''Doc'') [] (lit ''How?''))\<rparr>"
  have sent: "snd (ai_assistant (lit ''Doc'') (lit ''k'') ?g post) = [?req]" for post
    by (simp add: run_defs)
  have "receive (Inl (RequestException (lit ''timed out''))) =
          Inl (RequestException (lit ''timed out''))"
    by (rule receive_network_error)
  from upstream_exception_fails_500 [OF sent, of "\<lambda>r. Inl (RequestException (lit ''timed out''))", OF this]
  have 1: "fst (ai_assistant (lit ''Doc'') (lit ''k'') ?g
      (\<lambda>r. Inl (RequestException (lit ''timed out'')))) =
     Failure (Str_of (RequestException (lit ''timed out''))) 500"
    by simp
  have "receive (Inr \<lparr>status_code = 500, json_result = Inr hello_result\<rparr>) = Inl (HTTPError 500)"
    by (simp add: receive_def raise_for_status_def)
  from upstream_exception_fails_500
    [OF sent, of "\<lambda>r. Inr \<lparr>status_code = 500, json_result = Inr hello_result\<rparr>", OF this]
  have 2: "fst (ai_assistant (lit ''Doc'') (lit ''k'') ?g
      (\<lambda>r. Inr \<lparr>status_code = 500, json_result = Inr hello_result\<rparr>)) =
     Failure (Str_of (HTTPError 500)) 500"
    by simp
  have "receive (Inr \<lparr>status_code = 200, json_result = Inr (PDict [(lit ''choices'', PList [])])\<rparr>) =
          Inl (IndexError T_list)"
    by (simp add: receive_def raise_for_status_def read_result_empty_choices)
  from upstream_exception_fails_500
    [OF sent, of "\<lambda>r. Inr \<lparr>status_code = 200, json_result = Inr (PDict [(lit ''choices'', PList [])])\<rparr>",
     OF this]
  have 3: "fst (ai_assistant (lit ''Doc'') (lit ''k'') ?g
      (\<lambda>r. Inr \<lparr>status_code = 200, json_result = Inr (PDict [(lit ''choices'', PList [])])\<rparr>)) =
     Failure (Str_of (IndexError T_list)) 500"
    by simp
  from 1 2 3 show ?thesis by simp
qed

text \<open>
  C6: when the endpoint is called (the documentation is not empty and the question is
  not blank), its status is a 2xx and its result is a well-formed object, \<open>ai_assistant\<close>
  returns the success with the content of the first choice's message, the model of the
  result, and \<open>total_tokens\<close> of its \<open>usage\<close>, or 0 when \<open>usage\<close> or \<open>total_tokens\<close> is
  absent. The witness is the response \<open>Hello\<close>, \<open>m1\<close>, 42.
\<close>

theorem upstream_success:
  assumes "snd (ai_assistant doc key g post) = [req]"
    and "post req = Inr resp"
    and "200 \<le> status_code resp \<and> status_code resp < 300"
    and "json_result resp = Inr (PDict rs)"
    and "map_of rs (lit ''choices'') = Some (PList (PDict c # cs))"
    and "map_of c (lit ''message'') = Some (PDict m)"
    and "map_of m (lit ''content'') = Some a"
    and "map_of rs (lit ''model'') = Some mo"
    and "(map_of rs (lit ''usage'') = None \<and> t = PInt 0) \<or>
         (\<exists>u. map_of rs (lit ''usage'') = Some (PDict u) \<and>
              (map_of u (lit ''total_tokens'') = Some t \<or>
               map_of u (lit ''total_tokens'') = None \<and> t = PInt 0))"
  shows "ai_assistant doc key g post = (Success a mo t, [req])"
proof -
  have "read_result (PDict rs) = Inr (Success a mo t)"
    using assms(5-9) by (rule read_result_well_formed)
  with assms(2-4) have "receive (post req) = Inr (Success a mo t)"
    by (simp add: receive_def raise_for_status_def)
  with ai_assistant_sent [OF assms(1)] show ?thesis by simp
qed

theorem upstream_success_witness:
  "ai_assistant (lit ''Doc'') (lit ''k'') (Inr (PDict [(lit ''question'', PStr (lit '' Hi? ''))]))
     (\<lambda>r. Inr \<lparr>status_code = 200, json_result = Inr hello_result\<rparr>) =
   (Success (PStr (lit ''Hello'')) (PStr (lit ''m1'')) (PInt 42),
    [\<lparr>url = GROQ_URL, headers = request_headers (lit ''k''),
      json = request_body (build_prompt (lit ''Doc'') [] (lit ''Hi?''))\<rparr>])"
proof -
  let ?post = "\<lambda>r::outbound.
    (Inr \<lparr>status_code = 200, json_result = Inr hello_result\<rparr> :: exn + response)"
  let ?req = "\<lparr>url = GROQ_URL, headers = request_headers (lit ''k''),
      json = request_body (build_prompt (lit ''Doc'') [] (lit ''Hi?''))\<rparr>"
  have sent: "snd (ai_assistant (lit ''Doc'') (lit ''k'')
      (Inr (PDict [(lit ''question'', PStr (lit '' Hi? ''))])) ?post) = [?req]"
    by (simp add: run_defs)
  show ?thesis
    by (rule upstream_success
          [OF sent, where resp = "\<lparr>status_code = 200, json_result = Inr hello_result\<rparr>"
          and rs = "[(lit ''model'', PStr (lit ''m1'')),
       (lit ''choices'',
        PList [PDict [(lit ''message'', PDict [(lit ''content'', PStr (lit ''Hello''))])]]),
       (lit ''usage'', PDict [(lit ''total_tokens'', PInt 42)])]"
          and c = "[(lit ''message'', PDict [(lit ''content'', PStr (lit ''Hello''))])]"
          and cs = "[]" and m = "[(lit ''content'', PStr (lit ''Hello''))]"])
       (simp_all add: hello_result_def)
qed

text \<open>
  C7: whatever the request and the endpoint, when \<open>ai_assistant\<close> returns a success the
  documentation is not empty.
\<close>

theorem success_needs_corpus:
  assumes "fst (ai_assistant doc key g post) = Success a m t"
  shows "doc \<noteq> []"
proof
  assume "doc = []"
  then have "\<exists>msg code. fst (ai_assistant doc key g post) = Failure msg code"
    by (simp add: ai_assistant_def ai_assistant_try_def error_response_def split: sum.splits)
  with assms show False by auto
qed

theorem success_needs_corpus_witness:
  "fst (ai_assistant (lit ''Doc'') (lit ''k'') (Inr (PDict [(lit ''question'', PStr (lit ''How?''))]))
     (\<lambda>r. Inr \<lparr>status_code = 200, json_result = Inr hello_result\<rparr>)) =
     Success (PStr (lit ''Hello'')) (PStr (lit ''m1'')) (PInt 42) \<and>
   lit ''Doc'' \<noteq> []"
proof -
  have run: "fst (ai_assistant (lit ''Doc'') (lit ''k'')
      (Inr (PDict [(lit ''question'', PStr (lit ''How?''))]))
      (\<lambda>r. Inr \<lparr>status_code = 200, json_result = Inr hello_result\<rparr>)) =
     Success (PStr (lit ''Hello'')) (PStr (lit ''m1'')) (PInt 42)"
    by (simp add: ai_assistant_def ai_assistant_try_def dict_get_def strip_def strip_str_def
        is_space_def lit_def format_chat_history_def receive_def raise_for_status_def
        read_result_def getitem_def index_of_def hello_result_def success_response_def Let_def)
  from success_needs_corpus [OF run] run show ?thesis by simp
qed

subsection \<open>The prompt\<close>

text \<open>
  C8: the prompt sent is \<open>build_prompt\<close> of the documentation, the formatted history and
  the stripped question, and of nothing else: two runs that call the endpoint with the
  same documentation, histories that format to the same string and questions that strip
  to the same string send the same prompt, whatever else differs (the API key, the
  endpoint, the raw history, the white space around the question).
\<close>

theorem prompt_deterministic:
  assumes "snd (ai_assistant doc key (Inr data) post) = [req]"
    and "snd (ai_assistant doc key' (Inr data') post') = [req']"
    and "dict_get data (lit ''history'') (PList []) = Inr hraw"
    and "dict_get data' (lit ''history'') (PList []) = Inr hraw'"
    and "format_chat_history hraw = format_chat_history hraw'"
    and "dict_get data (lit ''question'') (PStr []) = Inr qv"
    and "dict_get data' (lit ''question'') (PStr []) = Inr qv'"
    and "strip qv = strip qv'"
  shows "\<exists>h q. format_chat_history hraw = Inr h \<and> strip qv = Inr q \<and>
           json req = request_body (build_prompt doc h q) \<and>
           json req' = request_body (build_prompt doc h q)"
proof -
  from assms(1) have "snd (ai_assistant_try doc key (Inr data) post) = [req]"
    by (simp add: snd_ai_assistant)
  from try_sent [OF this] assms(3,6) obtain h q where
    h: "format_chat_history hraw = Inr h" and q: "strip qv = Inr q"
    by auto
  have "json req = request_body (build_prompt doc h q)"
    using assms(1,6) q assms(3) h by (rule sent_request)
  moreover have "json req' = request_body (build_prompt doc h q)"
    using assms(2,7) q [unfolded assms(8)] assms(4) h [unfolded assms(5)]
    by (rule sent_request)
  ultimately show ?thesis
    using h q by blast
qed

theorem prompt_deterministic_witness:
  "json (hd (snd (ai_assistant (lit ''Doc'') (lit ''k1'')
      (Inr (PDict [(lit ''question'', PStr (lit '' How? '')),
                   (lit ''history'', PList [turn (lit ''USER'') (lit ''hi ''),
                                           turn (lit ''system'') (lit ''x'')])]))
      (\<lambda>r. Inl (RequestException (lit ''timed out'')))))) =
   json (hd (snd (ai_assistant (lit ''Doc'') (lit ''k2'')
      (Inr (PDict [(lit ''history'', PList [turn (lit ''user'') (lit ''hi'')]),
                   (lit ''question'', PStr (lit ''How?''))]))
      (\<lambda>r. Inr \<lparr>status_code = 200, json_result = Inr hello_result\<rparr>))))"
proof -
  let ?d1 = "PDict [(lit ''question'', PStr (lit '' How? '')),
                   (lit ''history'', PList [turn (lit ''USER'') (lit ''hi ''),
                                           turn (lit ''system'') (lit ''x'')])]"
  let ?d2 = "PDict [(lit ''history'', PList [turn (lit ''user'') (lit ''hi'')]),
                   (lit ''question'', PStr (lit ''How?''))]"
  let ?p1 = "\<lambda>r::outbound. (Inl (RequestException (lit ''timed out'')) :: exn + response)"
  let ?p2 = "\<lambda>r::outbound.
    (Inr \<lparr>status_code = 200, json_result = Inr hello_result\<rparr> :: exn + response)"
  let ?r1 = "\<lparr>url = GROQ_URL, headers = request_headers (lit ''k1''),
      json = request_body (build_prompt (lit ''Doc'') (lit ''User: hi'') (lit ''How?''))\<rparr>"
  let ?r2 = "\<lparr>url = GROQ_URL, headers = request_headers (lit ''k2''),
      json = request_body (build_prompt (lit ''Doc'') (lit ''User: hi'') (lit ''How?''))\<rparr>"
  have s1: "snd (ai_assistant (lit ''Doc'') (lit ''k1'') (Inr ?d1) ?p1) = [?r1]"
    by (simp add: run_defs turn_def lower_def lower_char_def)
  have s2: "snd (ai_assistant (lit ''Doc'') (lit ''k2'') (Inr ?d2) ?p2) = [?r2]"
    by (simp add: run_defs turn_def lower_def lower_char_def)
  have "\<exists>h q. format_chat_history (PList [turn (lit ''USER'') (lit ''hi ''),
                                           turn (lit ''system'') (lit ''x'')]) = Inr h \<and>
          strip (PStr (lit '' How? '')) = Inr q \<and>
          json ?r1 = request_body (build_prompt (lit ''Doc'') h q) \<and>
          json ?r2 = request_body (build_prompt (lit ''Doc'') h q)"
    by (rule prompt_deterministic
          [where hraw' = "PList [turn (lit ''user'') (lit ''hi'')]"
             and qv' = "PStr (lit ''How?'')", OF s1 s2])
       (simp_all add: dict_get_def turn_def format_chat_history_def lower_def lower_char_def
          strip_def strip_str_def is_space_def lit_def)
  then have "json ?r1 = json ?r2" by auto
  with s1 s2 show ?thesis by simp
qed

text \<open>
  C9: in the prompt sent, the section of the conversation history, between its label and
  the label of the question, is the placeholder \<open>No prior conversation.\<close> exactly when the
  formatted history is the empty string, and is the formatted history itself otherwise.
\<close>

theorem prompt_history_section:
  assumes "snd (ai_assistant doc key (Inr data) post) = [req]"
    and "dict_get data (lit ''history'') (PList []) = Inr hraw"
    and "format_chat_history hraw = Inr h"
    and "dict_get data (lit ''question'') (PStr []) = Inr qv"
    and "strip qv = Inr q"
  shows "json req =
           request_body
            (prompt_preamble @ doc @ prompt_history_label @ history_section h @
             prompt_question_label @ q @ prompt_instructions) \<and>
         (history_section h = lit ''No prior conversation.'' \<longleftrightarrow> h = []) \<and>
         (h \<noteq> [] \<longrightarrow> history_section h = h)"
proof -
  have "json req = request_body (build_prompt doc h q)"
    using assms(1,4,5,2,3) by (rule sent_request)
  moreover have "history_section h = lit ''No prior conversation.'' \<longleftrightarrow> h = []"
    using format_chat_history_not_placeholder [OF assms(3)]
    by (auto simp add: history_section_def no_prior_conversation_def)
  ultimately show ?thesis
    by (simp add: build_prompt_def history_section_def)
qed

theorem prompt_history_section_witness:
  "json (hd (snd (ai_assistant (lit ''Doc'') (lit ''k'')
      (Inr (PDict [(lit ''question'', PStr (lit ''How?'')),
                   (lit ''history'', PList [turn (lit ''alien'') (lit ''x'')])]))
      (\<lambda>r. Inr \<lparr>status_code = 200, json_result = Inr hello_result\<rparr>)))) =
     request_body
      (prompt_preamble @ lit ''Doc'' @ prompt_history_label @ lit ''No prior conversation.'' @
       prompt_question_label @ lit ''How?'' @ prompt_instructions) \<and>
   json (hd (snd (ai_assistant (lit ''Doc'') (lit ''k'')
      (Inr (PDict [(lit ''question'', PStr (lit ''How?'')),
                   (lit ''history'', PList [turn (lit ''user'') (lit ''hi''),
                                           turn (lit ''bot'') (lit ''yo'')])]))
      (\<lambda>r. Inr \<lparr>status_code = 200, json_result = Inr hello_result\<rparr>)))) =
     request_body
      (prompt_preamble @ lit ''Doc'' @ prompt_history_label @ lit ''User: hi\<newline>AI: yo'' @
       prompt_question_label @ lit ''How?'' @ prompt_instructions)"
proof -
  let ?d1 = "PDict [(lit ''question'', PStr (lit ''How?'')),
                   (lit ''history'', PList [turn (lit ''alien'') (lit ''x'')])]"
  let ?d2 = "PDict [(lit ''question'', PStr (lit ''How?'')),
                   (lit ''history'', PList [turn (lit ''user'') (lit ''hi''),
                                           turn (lit ''bot'') (lit ''yo'')])]"
  let ?p = "\<lambda>r::outbound.
    (Inr \<lparr>status_code = 200, json_result = Inr hello_result\<rparr> :: exn + response)"
  let ?r1 = "\<lparr>url = GROQ_URL, headers = request_headers (lit ''k''),
      json = request_body (build_prompt (lit ''Doc'') [] (lit ''How?''))\<rparr>"
  let ?r2 = "\<lparr>url = GROQ_URL, headers = request_headers (lit ''k''),
      json = request_body (build_prompt (lit ''Doc'') (lit ''User: hi\<newline>AI: yo'') (lit ''How?''))\<rparr>"
  have s1: "snd (ai_assistant (lit ''Doc'') (lit ''k'') (Inr ?d1) ?p) = [?r1]"
    by (simp add: run_defs turn_def lower_def lower_char_def)
  have s2: "snd (ai_assistant (lit ''Doc'') (lit ''k'') (Inr ?d2) ?p) = [?r2]"
    by (simp add: run_defs turn_def lower_def lower_char_def)
  have "json ?r1 =
           request_body
            (prompt_preamble @ lit ''Doc'' @ prompt_history_label @ history_section [] @
             prompt_question_label @ lit ''How?'' @ prompt_instructions) \<and>
         (history_section [] = lit ''No prior conversation.'' \<longleftrightarrow> ([]::ustr) = []) \<and>
         (([]::ustr) \<noteq> [] \<longrightarrow> history_section [] = [])"
    by (rule prompt_history_section [OF s1, where hraw = "PList [turn (lit ''alien'') (lit ''x'')]"
          and qv = "PStr (lit ''How?'')"])
       (simp_all add: dict_get_def turn_def format_chat_history_def lower_def lower_char_def
          strip_def strip_str_def is_space_def lit_def)
  then have 1: "json ?r1 =
           request_body
            (prompt_preamble @ lit ''Doc'' @ prompt_history_label @ lit ''No prior conversation.'' @
             prompt_question_label @ lit ''How?'' @ prompt_instructions)"
    by simp
  have "json ?r2 =
           request_body
            (prompt_preamble @ lit ''Doc'' @ prompt_history_label @
             history_section (lit ''User: hi\<newline>AI: yo'') @
             prompt_question_label @ lit ''How?'' @ prompt_instructions) \<and>
         (history_section (lit ''User: hi\<newline>AI: yo'') = lit ''No prior conversation.'' \<longleftrightarrow>
            lit ''User: hi\<newline>AI: yo'' = []) \<and>
         (lit ''User: hi\<newline>AI: yo'' \<noteq> [] \<longrightarrow>
            history_section (lit ''User: hi\<newline>AI: yo'') = lit ''User: hi\<newline>AI: yo'')"
    by (rule prompt_history_section [OF s2, where hraw = "PList [turn (lit ''user'') (lit ''hi''),
                                           turn (lit ''bot'') (lit ''yo'')]"
          and qv = "PStr (lit ''How?'')"])
       (simp_all add: dict_get_def turn_def format_chat_history_def lower_def lower_char_def
          strip_def strip_str_def is_space_def lit_def)
  then have 2: "json ?r2 =
           request_body
            (prompt_preamble @ lit ''Doc'' @ prompt_history_label @ lit ''User: hi\<newline>AI: yo'' @
             prompt_question_label @ lit ''How?'' @ prompt_instructions)"
    by (simp add: lit_def)
  from 1 2 s1 s2 show ?thesis by simp
qed

end
